theory Spec2Isabelle
  imports Main "HOL-Library.Sublist"
begin

section \<open>The knowledge retriever\<close>

text \<open>
  The module under verification is \<^verbatim>\<open>knowledge/retriever.py\<close>:
  \<^verbatim>\<open>
  class Retriever:
      def retrieve(self, query: str) -> list[str]:
          return [f"Result for {query}"]
  \<close>
  A Python \<^verbatim>\<open>str\<close> is a finite sequence of characters and is modelled as a HOL
  \<open>string\<close>. Nothing below depends on which characters a query holds: the only
  characters the code itself supplies are the eleven ASCII characters of the literal.
\<close>

subsection \<open>Formatted string literals\<close>

text \<open>
  An f-string is a sequence of parts: literal text, and replacement fields. The field
  \<^verbatim>\<open>{query}\<close> has no conversion and no format specification, and its value is a
  \<^verbatim>\<open>str\<close>; formatting a \<^verbatim>\<open>str\<close> with the empty specification gives the
  string itself. The value of the f-string is the concatenation of its parts, in order.
\<close>

datatype fstring_part = Constant string | FormattedValue string

fun format_part :: "fstring_part \<Rightarrow> string" where
  "format_part (Constant s) = s"
| "format_part (FormattedValue v) = v"

definition JoinedStr :: "fstring_part list \<Rightarrow> string" where
  "JoinedStr parts = concat (map format_part parts)"

subsection \<open>Objects, program state and outcomes\<close>

text \<open>
  The class declares no attribute, no \<^verbatim>\<open>__init__\<close> and no \<^verbatim>\<open>__slots__\<close>, so
  all an instance carries is its instance dictionary, from attribute names to values of
  some type \<open>'v\<close>. A freshly constructed \<^verbatim>\<open>Retriever()\<close> has the empty dictionary.
\<close>

record 'v Retriever =
  attrs :: "string \<rightharpoonup> 'v"

definition new_Retriever :: "'v Retriever" where
  "new_Retriever = \<lparr>attrs = Map.empty\<rparr>"

text \<open>
  A call either returns a value (\<open>Inr\<close>) or raises an exception (\<open>Inl\<close>), named by its
  class.
\<close>

datatype py_exception = Exception string

text \<open>
  A method call runs on the receiver and in a state \<open>'w\<close> of everything else (module
  globals, other objects, the I/O streams); it yields its outcome, the receiver after the
  call and the state after the call. The body of \<^verbatim>\<open>retrieve\<close> is one
  \<^verbatim>\<open>return\<close> of a list display with one element: it has no \<^verbatim>\<open>raise\<close>, no
  assignment and no call, so the outcome is a returned list and the receiver and the
  state are handed back as they came.
\<close>

definition retrieve ::
  "'v Retriever \<Rightarrow> string \<Rightarrow> 'w \<Rightarrow> (py_exception + string list) \<times> 'v Retriever \<times> 'w" where
  "retrieve self query w =
     (Inr [JoinedStr [Constant ''Result for '', FormattedValue query]], self, w)"

subsection \<open>The unit test\<close>

text \<open>
  \<^verbatim>\<open>
  def test_retrieve() -> None:
      r = Retriever()
      results = r.retrieve("test")
      assert results and "test" in results[0]
  \<close>
  A list is truthy when it is not empty, \<^verbatim>\<open>and\<close> evaluates its right operand only
  then, and \<^verbatim>\<open>in\<close> between two strings is the substring test. A failed
  \<^verbatim>\<open>assert\<close> raises \<^verbatim>\<open>AssertionError\<close>; an exception of the call would pass
  through.
\<close>

definition test_retrieve :: "py_exception + unit" where
  "test_retrieve =
     (let r = (new_Retriever :: unit Retriever) in
      case fst (retrieve r ''test'' ()) of
        Inl e \<Rightarrow> Inl e
      | Inr results \<Rightarrow>
          if results \<noteq> [] \<and> sublist ''test'' (results ! 0) then Inr ()
          else Inl (Exception ''AssertionError''))"

section \<open>Properties\<close>

subsection \<open>Auxiliary facts\<close>

lemma JoinedStr_template:
  "JoinedStr [Constant p, FormattedValue q] = p @ q"
  by (simp add: JoinedStr_def)

lemma retrieve_outcome:
  "fst (retrieve self q w) = Inr [''Result for '' @ q]"
  by (simp add: retrieve_def JoinedStr_template)

lemma test_retrieve_passes: "test_retrieve = Inr ()"
proof -
  have "sublist ''test'' (''Result for '' @ ''test'')"
    by (rule sublist_append_leftI)
  then show ?thesis
    by (simp add: test_retrieve_def Let_def retrieve_outcome)
qed

subsection \<open>The returned sequence\<close>

text \<open>
  C1. For every text \<open>q\<close>, the call returns, and the sole element of the returned
  sequence is exactly the concatenation of \<open>''Result for ''\<close> and \<open>q\<close>.
\<close>

theorem retrieve_sole_element:
  "\<exists>x. fst (retrieve self q w) = Inr [x] \<and> x = ''Result for '' @ q"
  by (simp add: retrieve_outcome)

text \<open>
  C2. For every text \<open>q\<close>, the call returns a sequence of length exactly 1.
\<close>

theorem retrieve_length:
  "\<exists>ys. fst (retrieve self q w) = Inr ys \<and> length ys = 1"
  by (simp add: retrieve_outcome)

text \<open>
  C5. For every text \<open>q\<close>, the sole element of the returned sequence contains \<open>q\<close> as
  a substring: it is some text, then \<open>q\<close>, then some text.
\<close>

theorem retrieve_contains_query:
  "\<exists>x. fst (retrieve self q w) = Inr [x] \<and> sublist q x"
proof (intro exI conjI)
  show "fst (retrieve self q w) = Inr [''Result for '' @ q]"
    by (rule retrieve_outcome)
  show "sublist q (''Result for '' @ q)"
    by (rule sublist_append_leftI)
qed

text \<open>
  C7. The call with the query \<open>''test''\<close> returns exactly the one-element sequence
  holding \<open>''Result for test''\<close>.
\<close>

theorem retrieve_test:
  "fst (retrieve self ''test'' w) = Inr [''Result for test'']"
  by (simp add: retrieve_outcome)

text \<open>
  C8. The call with the empty query returns exactly the one-element sequence holding
  \<open>''Result for ''\<close>.
\<close>

theorem retrieve_empty:
  "fst (retrieve self [] w) = Inr [''Result for '']"
  by (simp add: retrieve_outcome)

subsection \<open>Success, determinism and the frame\<close>

text \<open>
  C4. The call is total: for every text \<open>q\<close>, the empty one included, on every receiver
  and in every state it returns a sequence, and it raises no exception.
\<close>

theorem retrieve_total:
  "(\<exists>ys. fst (retrieve self q w) = Inr ys) \<and> (\<forall>e. fst (retrieve self q w) \<noteq> Inl e)"
  by (simp add: retrieve_outcome)

text \<open>
  C3. The call is deterministic: two calls with the same query return equal sequences,
  whatever the receivers and the states they run in; in particular a second call, made
  on the receiver and in the state the first one left, returns what the first returned.
\<close>

theorem retrieve_deterministic:
  "fst (retrieve self q w) = fst (retrieve self' q w') \<and>
   (case retrieve self q w of
      (r1, self1, w1) \<Rightarrow> fst (retrieve self1 q w1) = r1)"
  by (simp add: retrieve_def)

text \<open>
  C6. The call is stateless and has no side effect: for every text \<open>q\<close> it leaves the
  receiver, with all its attributes, and the state of everything else as they were
  before the call, so the returned sequence is all that can be observed of it; and
  what it returns does not depend on the receiver or on the state it is called in.
\<close>

theorem retrieve_frame:
  "snd (retrieve self q w) = (self, w) \<and>
   fst (retrieve self q w) = fst (retrieve self' q w')"
  by (simp add: retrieve_def)

subsection \<open>Recovering the query\<close>

text \<open>
  C9. The call is injective on queries: two different queries give different returned
  sequences, whatever the receivers and the states of the two calls.
\<close>

theorem retrieve_injective:
  "q1 \<noteq> q2 \<Longrightarrow> fst (retrieve self q1 w) \<noteq> fst (retrieve self' q2 w')"
  by (simp add: retrieve_outcome)

theorem retrieve_injective_witness:
  "''storage'' \<noteq> ''store'' \<and>
   fst (retrieve (new_Retriever :: unit Retriever) ''storage'' ()) \<noteq>
   fst (retrieve (new_Retriever :: unit Retriever) ''store'' ())"
proof -
  have ne: "''storage'' \<noteq> ''store''" by simp
  have "fst (retrieve (new_Retriever :: unit Retriever) ''storage'' ()) \<noteq>
        fst (retrieve (new_Retriever :: unit Retriever) ''store'' ())"
    by (rule retrieve_injective [OF ne])
  with ne show ?thesis by (rule conjI)
qed

text \<open>
  C10. The query round-trips through the result: for every text \<open>q\<close>, the sole element
  of the returned sequence starts with the prefix \<open>''Result for ''\<close>, that prefix has 11
  characters, and dropping the first 11 characters of the element gives back exactly \<open>q\<close>.
\<close>

theorem retrieve_roundtrip:
  "\<exists>x. fst (retrieve self q w) = Inr [x] \<and>
     prefix ''Result for '' x \<and> length ''Result for '' = 11 \<and> drop 11 x = q"
  by (simp add: retrieve_outcome)

end
